theory Spec2Isabelle
  imports Main
begin

section \<open>Data model\<close>

text \<open>
  The program keeps two Python lists in a \<open>QuoteManager\<close> object: \<open>history\<close>, a list of
  dictionaries with the keys \<open>quote\<close> and \<open>timestamp\<close>, and \<open>favorites\<close>, a list of
  strings; \<open>current_quote\<close> is a string. Both lists are mirrored in two JSON files.
\<close>

record entry =
  quote :: string
  timestamp :: string

record QuoteManager =
  history :: "entry list"
  favorites :: "string list"
  current_quote :: string

text \<open>
  A file of the data directory is described by what reading it gives: it does not exist
  (\<open>Absent\<close>), the test \<open>exists()\<close> itself raises because the directory cannot be
  searched (\<open>NoAccess\<close>), it exists but \<open>open\<close> or \<open>json.load\<close> raises on it
  (\<open>Corrupt\<close>), or it holds the JSON text of a value (\<open>Content\<close>). \<open>json.dump\<close> and \<open>json.load\<close> are library
  code: the model identifies a JSON text with the value it denotes, and it covers files of
  the shape the program itself writes (an array of strings, an array of entries).
\<close>

datatype 'a stored = Absent | NoAccess | Corrupt | Content 'a

text \<open>
  How the next write of a file goes: it succeeds, \<open>open(path, 'w')\<close> raises (the file is
  left as it was), or \<open>open\<close> succeeds, truncating the file, and \<open>json.dump\<close> raises
  before the text is complete (an incomplete JSON text does not parse).
\<close>

datatype wr = WriteOk | OpenFails | DumpFails

record disk =
  mkdir_ok :: bool
  favorites_file :: "string list stored"
  history_file :: "entry list stored"
  favorites_wr :: wr
  history_wr :: wr

datatype io_step =
    Mkdir | ExistsFavorites | ExistsHistory
  | OpenFavorites | DumpFavorites | OpenHistory | DumpHistory

datatype exn = OSError io_step | IndexError

datatype error_type = timeout | connection | unknown

datatype printed = ErrorSavingData exn | ApiError | Notice error_type

record world =
  mgr :: QuoteManager
  fs :: disk
  stdout :: "printed list"

section \<open>Configuration\<close>

definition FALLBACK_QUOTES :: "string list" where
  "FALLBACK_QUOTES =
    [''I'm not a businessman, I'm a business, man!'',
     ''I refuse to accept other people's ideas of happiness for me.'',
     ''Everything I'm not made me everything I am.'',
     ''I feel like I'm too busy writing history to read it.'',
     ''Life is 5% what happens and 95% how you react.'',
     ''Believe in your flyness, conquer your shyness.'',
     ''I don't even listen to rap. My apartment is too nice to listen to rap in.'',
     ''Keep your nose out the sky, keep your heart to God, and keep your face to the rising sun.'',
     ''I am Warhol. I am the No. 1 most impactful artist of our generation.'',
     ''My greatest pain in life is that I will never be able to see myself perform live.'',
     ''I hate when I'm on a flight and I wake up with a water bottle next to me.'',
     ''I feel calm but energized.'',
     ''I'm on the pursuit of awesomeness.'',
     ''Would you believe in what you believe in if you were the only one who believed it?'']"

section \<open>QuoteManager\<close>

text \<open>
  \<open>_load_data\<close>: the directory is created outside any \<open>try\<close>, and so is each test
  \<open>exists()\<close>, so a failure of one of them leaves the constructor by an exception; each
  file is read under its own \<open>try\<close> with a bare \<open>except\<close> that resets the list.
\<close>

definition load_data :: "QuoteManager \<Rightarrow> disk \<Rightarrow> exn + QuoteManager" where
  "load_data m d =
     (if \<not> mkdir_ok d then Inl (OSError Mkdir)
      else
        case favorites_file d of
          NoAccess \<Rightarrow> Inl (OSError ExistsFavorites)
        | f \<Rightarrow>
            let m1 = m\<lparr>favorites := (case f of
                         Absent \<Rightarrow> favorites m | Corrupt \<Rightarrow> [] | Content v \<Rightarrow> v
                       | NoAccess \<Rightarrow> favorites m)\<rparr>
            in case history_file d of
                 NoAccess \<Rightarrow> Inl (OSError ExistsHistory)
               | h \<Rightarrow>
                   Inr (m1\<lparr>history := (case h of
                          Absent \<Rightarrow> history m1 | Corrupt \<Rightarrow> [] | Content v \<Rightarrow> v
                        | NoAccess \<Rightarrow> history m1)\<rparr>))"

definition QuoteManager_init :: "disk \<Rightarrow> exn + QuoteManager" where
  "QuoteManager_init d =
     load_data \<lparr>history = [], favorites = [], current_quote = ''''\<rparr> d"

text \<open>\<open>xs[-50:]\<close>: the last 50 elements, the whole list when it is shorter.\<close>

definition last_50 :: "'a list \<Rightarrow> 'a list" where
  "last_50 xs = drop (length xs - 50) xs"

definition write_file :: "wr \<Rightarrow> io_step \<Rightarrow> io_step \<Rightarrow> 'a \<Rightarrow> 'a stored \<Rightarrow> exn option \<times> 'a stored" where
  "write_file mode open_step dump_step v old =
     (case mode of
        WriteOk \<Rightarrow> (None, Content v)
      | OpenFails \<Rightarrow> (Some (OSError open_step), old)
      | DumpFails \<Rightarrow> (Some (OSError dump_step), Corrupt))"

text \<open>
  The body of the \<open>try\<close> in \<open>save_data\<close>: the exception that leaves it, if any, and the
  state at that point.
\<close>

definition save_try :: "world \<Rightarrow> exn option \<times> world" where
  "save_try w =
     (if \<not> mkdir_ok (fs w) then (Some (OSError Mkdir), w)
      else
        case write_file (favorites_wr (fs w)) OpenFavorites DumpFavorites
               (favorites (mgr w)) (favorites_file (fs w)) of
          (Some e, f) \<Rightarrow> (Some e, w\<lparr>fs := (fs w)\<lparr>favorites_file := f\<rparr>\<rparr>)
        | (None, f) \<Rightarrow>
            let w1 = w\<lparr>fs := (fs w)\<lparr>favorites_file := f\<rparr>\<rparr> in
            case write_file (history_wr (fs w1)) OpenHistory DumpHistory
                   (last_50 (history (mgr w1))) (history_file (fs w1)) of
              (r, h) \<Rightarrow> (r, w1\<lparr>fs := (fs w1)\<lparr>history_file := h\<rparr>\<rparr>))"

text \<open>\<open>save_data\<close>: \<open>except Exception as e: print(...)\<close> around the body.\<close>

definition save_data :: "world \<Rightarrow> exn + world" where
  "save_data w =
     (case save_try w of
        (None, w') \<Rightarrow> Inr w'
      | (Some e, w') \<Rightarrow> Inr (w'\<lparr>stdout := stdout w' @ [ErrorSavingData e]\<rparr>))"

text \<open>\<open>add_to_history\<close>; \<open>now\<close> is the text of \<open>datetime.now().isoformat()\<close>.\<close>

definition add_to_history :: "string \<Rightarrow> string \<Rightarrow> QuoteManager \<Rightarrow> QuoteManager" where
  "add_to_history q now m =
     m\<lparr>history := history m @ [\<lparr>quote = q, timestamp = now\<rparr>], current_quote := q\<rparr>"

text \<open>\<open>toggle_favorite\<close>: \<open>list.remove\<close> deletes the first equal element.\<close>

definition toggle_favorite :: "string \<Rightarrow> QuoteManager \<Rightarrow> bool \<times> QuoteManager" where
  "toggle_favorite q m =
     (if q \<in> set (favorites m)
      then (False, m\<lparr>favorites := remove1 q (favorites m)\<rparr>)
      else (True, m\<lparr>favorites := favorites m @ [q]\<rparr>))"

definition is_favorite :: "string \<Rightarrow> QuoteManager \<Rightarrow> bool" where
  "is_favorite q m = (q \<in> set (favorites m))"

text \<open>
  \<open>get_random_favorite\<close>; \<open>r\<close> is the number drawn by the generator, so that
  \<open>random.choice\<close> picks the element at \<open>r mod len\<close>; on an empty sequence it raises.
\<close>

definition random_choice :: "nat \<Rightarrow> 'a list \<Rightarrow> exn + 'a" where
  "random_choice r xs = (if xs = [] then Inl IndexError else Inr (xs ! (r mod length xs)))"

definition get_random_favorite :: "nat \<Rightarrow> QuoteManager \<Rightarrow> exn + string" where
  "get_random_favorite r m =
     (if favorites m \<noteq> [] then random_choice r (favorites m) else Inr '''')"

section \<open>KanyeQuoteApp\<close>

text \<open>
  The application object: the manager with its files and the standard output
  (\<open>env\<close>), the \<open>is_loading\<close> flag, and the widgets that the functions below
  configure. Of the Tk main loop the model keeps the queue of callbacks registered with
  \<open>window.after(0, ...)\<close>; of the fetch threads it keeps how many have been started and
  not yet begun to run, how many wait for the HTTP response, and how many requests were
  sent in all. The favourite indicator and the statistics label only display values
  computed from the manager, and the timed clearing of a flash message only resets
  \<open>loading_text\<close>; the model leaves them out.
\<close>

datatype banner = NoBanner | Loading | AddedToFavorites | RemovedFromFavorites

datatype callback = ShowLoading bool | DisplayQuote string | HandleError error_type

record app =
  env :: world
  is_loading :: bool
  quote_text :: string
  loading_text :: banner
  quote_button_enabled :: bool
  pending :: "callback list"
  started :: nat
  in_flight :: nat
  requests_sent :: nat

text \<open>What a Python function hands back: here only \<open>None\<close> or a boolean.\<close>

datatype pyval = PyNone | PyBool bool

fun py_truth :: "pyval \<Rightarrow> bool" where
  "py_truth PyNone = False"
| "py_truth (PyBool b) = b"

definition show_loading :: "bool \<Rightarrow> app \<Rightarrow> app" where
  "show_loading show a =
     (if show
      then a\<lparr>is_loading := show, quote_text := '''', loading_text := Loading,
             quote_button_enabled := False\<rparr>
      else a\<lparr>is_loading := show, loading_text := NoBanner, quote_button_enabled := True\<rparr>)"

text \<open>\<open>get_quote\<close>: returns at once while \<open>is_loading\<close> holds, else starts a thread.\<close>

definition get_quote :: "app \<Rightarrow> app" where
  "get_quote a = (if is_loading a then a else a\<lparr>started := started a + 1\<rparr>)"

text \<open>
  \<open>_fetch_quote\<close> runs in the thread. Its first statement registers
  \<open>_show_loading(True)\<close> with the main loop; then it waits for the response. The
  response is a quote text (\<open>requests.get\<close>, \<open>raise_for_status\<close> and \<open>json\<close> succeeded and
  \<open>data.get("quote", "")\<close> gave it), or one of the exceptions that the three handlers
  tell apart.
\<close>

datatype response = GotQuote string | TimeoutExc | ConnectionExc | OtherExc

definition after_0 :: "callback \<Rightarrow> app \<Rightarrow> app" where
  "after_0 c a = a\<lparr>pending := pending a @ [c]\<rparr>"

definition print_line :: "printed \<Rightarrow> app \<Rightarrow> app" where
  "print_line l a = a\<lparr>env := (env a)\<lparr>stdout := stdout (env a) @ [l]\<rparr>\<rparr>"

definition fetch_quote_begin :: "app \<Rightarrow> app" where
  "fetch_quote_begin a =
     (after_0 (ShowLoading True) a)
       \<lparr>started := started a - 1, in_flight := in_flight a + 1,
        requests_sent := requests_sent a + 1\<rparr>"

definition fetch_quote_end :: "response \<Rightarrow> app \<Rightarrow> app" where
  "fetch_quote_end r a =
     (let a1 = a\<lparr>in_flight := in_flight a - 1\<rparr> in
      case r of
        GotQuote q \<Rightarrow>
          if q \<noteq> '''' then after_0 (DisplayQuote q) a1
          else after_0 (HandleError unknown) (print_line ApiError a1)
      | TimeoutExc \<Rightarrow> after_0 (HandleError timeout) a1
      | ConnectionExc \<Rightarrow> after_0 (HandleError connection) a1
      | OtherExc \<Rightarrow> after_0 (HandleError unknown) (print_line ApiError a1))"

text \<open>\<open>_display_quote\<close>: the quote is shown between double quotes (character 34).\<close>

definition quoted :: "string \<Rightarrow> string" where
  "quoted q = [CHR 0x22] @ q @ [CHR 0x22]"

definition display_quote :: "string \<Rightarrow> string \<Rightarrow> app \<Rightarrow> exn + app" where
  "display_quote q now a =
     (let a1 = show_loading False a;
          a2 = a1\<lparr>quote_text := quoted q\<rparr>;
          a3 = a2\<lparr>env := (env a2)\<lparr>mgr := add_to_history q now (mgr (env a2))\<rparr>\<rparr>
      in case save_data (env a3) of
           Inl e \<Rightarrow> Inl e
         | Inr w \<Rightarrow> Inr (a3\<lparr>env := w\<rparr>))"

text \<open>\<open>_handle_error\<close>; \<open>r\<close> is the number drawn for \<open>random.choice\<close>.\<close>

definition handle_error :: "error_type \<Rightarrow> nat \<Rightarrow> string \<Rightarrow> app \<Rightarrow> exn + app" where
  "handle_error et r now a =
     (let a1 = show_loading False a in
      case random_choice r FALLBACK_QUOTES of
        Inl e \<Rightarrow> Inl e
      | Inr fallback \<Rightarrow>
          let a2 = a1\<lparr>quote_text := quoted fallback\<rparr>;
              a3 = a2\<lparr>env := (env a2)\<lparr>mgr := add_to_history fallback now (mgr (env a2))\<rparr>\<rparr>
          in Inr (print_line (Notice et) a3))"

text \<open>
  \<open>KanyeQuoteApp.toggle_favorite\<close>, which toggles the current quote. It has no
  \<open>return\<close> with a value: it hands back \<open>None\<close> on every path.
\<close>

definition app_toggle_favorite :: "app \<Rightarrow> exn + pyval \<times> app" where
  "app_toggle_favorite a =
     (let q = current_quote (mgr (env a)) in
      if q = '''' then Inr (PyNone, a)
      else
        case toggle_favorite q (mgr (env a)) of
          (is_added, m) \<Rightarrow>
            (case save_data ((env a)\<lparr>mgr := m\<rparr>) of
               Inl e \<Rightarrow> Inl e
             | Inr w \<Rightarrow>
                 Inr (PyNone,
                      a\<lparr>env := w,
                        loading_text := (if is_added then AddedToFavorites
                                         else RemovedFromFavorites)\<rparr>)))"

text \<open>
  \<open>remove_selected\<close> of the favourites window; \<open>sel\<close> is the selected index of the
  list box, if any. An index beyond the list raises.
\<close>

definition remove_selected :: "nat option \<Rightarrow> app \<Rightarrow> exn + app" where
  "remove_selected sel a =
     (case sel of
        None \<Rightarrow> Inr a
      | Some i \<Rightarrow>
          let favs = favorites (mgr (env a)) in
          if i < length favs then
            let m = (mgr (env a))\<lparr>favorites := remove1 (favs ! i) favs\<rparr> in
            case save_data ((env a)\<lparr>mgr := m\<rparr>) of
              Inl e \<Rightarrow> Inl e
            | Inr w \<Rightarrow> Inr (a\<lparr>env := w\<rparr>)
          else Inl IndexError)"

text \<open>
  \<open>KanyeQuoteApp.__init__\<close>: builds the manager, clears the flag and asks for the first
  quote.
\<close>

definition KanyeQuoteApp_init :: "disk \<Rightarrow> exn + app" where
  "KanyeQuoteApp_init d =
     (case QuoteManager_init d of
        Inl e \<Rightarrow> Inl e
      | Inr m \<Rightarrow>
          Inr (get_quote
            \<lparr>env = \<lparr>mgr = m, fs = d, stdout = []\<rparr>, is_loading = False,
             quote_text = ''Click Kanye to get a quote!'', loading_text = NoBanner,
             quote_button_enabled = True, pending = [], started = 0, in_flight = 0,
             requests_sent = 0\<rparr>))"

subsection \<open>Interleaving of the main loop and the fetch threads\<close>

text \<open>
  One event is one piece of code that runs without interruption by the others: a call of
  \<open>get_quote\<close> on the main thread (a key, the button, the auto-refresh timer), a thread
  reaching its first statement, a thread receiving its response, and the main loop
  running the oldest registered callback. An event that is not enabled changes nothing.
\<close>

datatype event =
    CallGetQuote
  | ThreadBegins
  | ThreadEnds response
  | MainLoop nat string

definition run_callback :: "callback \<Rightarrow> nat \<Rightarrow> string \<Rightarrow> app \<Rightarrow> exn + app" where
  "run_callback c r now a =
     (case c of
        ShowLoading b \<Rightarrow> Inr (show_loading b a)
      | DisplayQuote q \<Rightarrow> display_quote q now a
      | HandleError et \<Rightarrow> handle_error et r now a)"

definition step :: "event \<Rightarrow> app \<Rightarrow> exn + app" where
  "step ev a =
     (case ev of
        CallGetQuote \<Rightarrow> Inr (get_quote a)
      | ThreadBegins \<Rightarrow> Inr (if 0 < started a then fetch_quote_begin a else a)
      | ThreadEnds resp \<Rightarrow> Inr (if 0 < in_flight a then fetch_quote_end resp a else a)
      | MainLoop r now \<Rightarrow>
          (case pending a of
             [] \<Rightarrow> Inr a
           | c # cs \<Rightarrow> run_callback c r now (a\<lparr>pending := cs\<rparr>)))"

fun run :: "event list \<Rightarrow> app \<Rightarrow> exn + app" where
  "run [] a = Inr a"
| "run (ev # evs) a = (case step ev a of Inl e \<Rightarrow> Inl e | Inr a' \<Rightarrow> run evs a')"

section \<open>Sample states\<close>

text \<open>
  Concrete states on which the functions are evaluated below: a data directory with one
  favourite and one history entry, the application as \<open>__init__\<close> leaves it on that
  directory, and a manager with two favourites.
\<close>

definition sample_entry :: entry where
  "sample_entry = \<lparr>quote = ''A'', timestamp = ''2024-05-01T10:00:00''\<rparr>"

definition sample_disk :: disk where
  "sample_disk =
     \<lparr>mkdir_ok = True, favorites_file = Content [''A''], history_file = Content [sample_entry],
      favorites_wr = WriteOk, history_wr = WriteOk\<rparr>"

definition sample_app :: app where
  "sample_app =
     \<lparr>env = \<lparr>mgr = \<lparr>history = [sample_entry], favorites = [''A''], current_quote = ''''\<rparr>,
             fs = sample_disk, stdout = []\<rparr>,
      is_loading = False, quote_text = ''Click Kanye to get a quote!'',
      loading_text = NoBanner, quote_button_enabled = True, pending = [], started = 1,
      in_flight = 0, requests_sent = 0\<rparr>"

definition sample_mgr :: QuoteManager where
  "sample_mgr = \<lparr>history = [sample_entry], favorites = [''A'', ''B''], current_quote = ''B''\<rparr>"

definition sample_world :: world where
  "sample_world = \<lparr>mgr = sample_mgr, fs = sample_disk, stdout = []\<rparr>"

definition numbered :: "nat \<Rightarrow> entry" where
  "numbered n = \<lparr>quote = replicate n CHR ''q'', timestamp = replicate n CHR ''t''\<rparr>"

section \<open>Basic facts\<close>

lemma length_last_50: "length (last_50 xs) = min 50 (length xs)"
  by (simp add: last_50_def)

lemma last_50_suffix: "take (length xs - 50) xs @ last_50 xs = xs"
  by (simp add: last_50_def)

lemma save_data_total: "\<exists>w'. save_data w = Inr w'"
  by (simp add: save_data_def split: prod.splits option.splits)

lemma save_data_mgr: "save_data w = Inr w' \<Longrightarrow> mgr w' = mgr w"
  by (auto simp: save_data_def save_try_def write_file_def Let_def
           split: prod.splits option.splits wr.splits if_splits)

lemma save_data_ok:
  "mkdir_ok (fs w) \<Longrightarrow> favorites_wr (fs w) = WriteOk \<Longrightarrow> history_wr (fs w) = WriteOk \<Longrightarrow>
   save_data w = Inr (w\<lparr>fs := (fs w)\<lparr>favorites_file := Content (favorites (mgr w)),
                                   history_file := Content (last_50 (history (mgr w)))\<rparr>\<rparr>)"
  by (simp add: save_data_def save_try_def write_file_def Let_def)

lemma save_data_favorites_file:
  "save_data w = Inr w' \<Longrightarrow>
   favorites_file (fs w') = Content (favorites (mgr w))
   \<or> favorites_file (fs w') = favorites_file (fs w)
   \<or> favorites_file (fs w') = Corrupt"
  by (auto simp: save_data_def save_try_def write_file_def Let_def
           split: prod.splits option.splits wr.splits if_splits)

lemma save_data_stdout:
  "save_data w = Inr w' \<Longrightarrow>
   (if mkdir_ok (fs w) \<and> favorites_wr (fs w) = WriteOk \<and> history_wr (fs w) = WriteOk
    then stdout w' = stdout w
    else \<exists>s. stdout w' = stdout w @ [ErrorSavingData (OSError s)])"
  by (auto simp: save_data_def save_try_def write_file_def Let_def
           split: prod.splits option.splits wr.splits if_splits)

lemma QuoteManager_init_ok:
  "mkdir_ok d \<Longrightarrow> favorites_file d \<noteq> NoAccess \<Longrightarrow> history_file d \<noteq> NoAccess \<Longrightarrow>
   QuoteManager_init d =
     Inr \<lparr>history = (case history_file d of Content v \<Rightarrow> v | _ \<Rightarrow> []),
          favorites = (case favorites_file d of Content v \<Rightarrow> v | _ \<Rightarrow> []),
          current_quote = ''''\<rparr>"
  by (simp add: QuoteManager_init_def load_data_def Let_def split: stored.splits)

lemma QuoteManager_init_fail:
  "\<not> mkdir_ok d \<Longrightarrow> QuoteManager_init d = Inl (OSError Mkdir)"
  by (simp add: QuoteManager_init_def load_data_def)

lemma QuoteManager_init_Inr:
  assumes "QuoteManager_init d = Inr m"
  shows "mkdir_ok d \<and> favorites_file d \<noteq> NoAccess \<and> history_file d \<noteq> NoAccess"
  using assms
  by (auto simp: QuoteManager_init_def load_data_def Let_def split: if_splits stored.splits)

lemma QuoteManager_init_result:
  assumes "QuoteManager_init d = Inr m"
  shows "m = \<lparr>history = (case history_file d of Content v \<Rightarrow> v | _ \<Rightarrow> []),
              favorites = (case favorites_file d of Content v \<Rightarrow> v | _ \<Rightarrow> []),
              current_quote = ''''\<rparr>"
  using assms QuoteManager_init_Inr [OF assms] by (simp add: QuoteManager_init_ok)

lemma sample_app_init: "KanyeQuoteApp_init sample_disk = Inr sample_app"
  by (simp add: KanyeQuoteApp_init_def QuoteManager_init_ok sample_disk_def sample_app_def
        get_quote_def)

lemma toggle_favorite_distinct:
  "distinct (favorites m) \<Longrightarrow> distinct (favorites (snd (toggle_favorite q m)))"
  by (simp add: toggle_favorite_def)

lemma remove_selected_mgr:
  "remove_selected sel a = Inr a' \<Longrightarrow>
   mgr (env a') =
     (case sel of None \<Rightarrow> mgr (env a)
      | Some i \<Rightarrow> (mgr (env a))\<lparr>favorites :=
          remove1 (favorites (mgr (env a)) ! i) (favorites (mgr (env a)))\<rparr>)"
  by (auto simp: remove_selected_def Let_def dest!: save_data_mgr
           split: option.splits if_splits sum.splits)

lemma app_toggle_favorite_mgr:
  "app_toggle_favorite a = Inr (r, a') \<Longrightarrow>
   mgr (env a') =
     (if current_quote (mgr (env a)) = '''' then mgr (env a)
      else snd (toggle_favorite (current_quote (mgr (env a))) (mgr (env a))))"
  by (auto simp: app_toggle_favorite_def Let_def dest!: save_data_mgr
           split: if_splits sum.splits prod.splits)

lemma save_data_favorites_distinct:
  assumes "distinct (favorites (mgr w))"
    and "\<forall>xs. favorites_file (fs w) = Content xs \<longrightarrow> distinct xs"
    and "save_data w = Inr w'" and "favorites_file (fs w') = Content xs"
  shows "distinct xs"
  using save_data_favorites_file [OF assms(3)] assms(1,2,4) by auto

lemma QuoteManager_init_distinct:
  assumes "\<forall>xs. favorites_file d = Content xs \<longrightarrow> distinct xs"
    and "QuoteManager_init d = Inr m0"
  shows "distinct (favorites m0)"
  using assms(1) QuoteManager_init_result [OF assms(2)]
  by (auto split: stored.splits)

section \<open>The fetch cycle\<close>

lemma FALLBACK_QUOTES_nonempty: "FALLBACK_QUOTES \<noteq> []"
  by (simp add: FALLBACK_QUOTES_def)

lemma random_choice_fallback:
  "\<exists>q. random_choice r FALLBACK_QUOTES = Inr q \<and> q \<in> set FALLBACK_QUOTES"
  using FALLBACK_QUOTES_nonempty by (simp add: random_choice_def)

text \<open>
  What \<open>_handle_error\<close> does for every error type, number drawn and state: it cannot
  fail, the quote comes from the corpus, it becomes the current quote and the last
  history entry, a notice is printed, and the files stay as they were.
\<close>

lemma handle_error_result:
  "\<exists>a' q. handle_error et r now a = Inr a' \<and> q \<in> set FALLBACK_QUOTES
     \<and> current_quote (mgr (env a')) = q
     \<and> history (mgr (env a')) = history (mgr (env a)) @ [\<lparr>quote = q, timestamp = now\<rparr>]
     \<and> stdout (env a') = stdout (env a) @ [Notice et]
     \<and> fs (env a') = fs (env a)"
proof -
  obtain q where q: "random_choice r FALLBACK_QUOTES = Inr q" "q \<in> set FALLBACK_QUOTES"
    using random_choice_fallback by blast
  then show ?thesis
    by (simp add: handle_error_def Let_def show_loading_def print_line_def add_to_history_def)
qed

lemma display_quote_result:
  "\<exists>a'. display_quote q now a = Inr a'
     \<and> current_quote (mgr (env a')) = q
     \<and> history (mgr (env a')) = history (mgr (env a)) @ [\<lparr>quote = q, timestamp = now\<rparr>]"
proof -
  let ?w = "(env a)\<lparr>mgr := add_to_history q now (mgr (env a))\<rparr>"
  obtain w' where w': "save_data ?w = Inr w'"
    using save_data_total by blast
  from save_data_mgr [OF w'] w' show ?thesis
    by (simp add: display_quote_def Let_def show_loading_def add_to_history_def)
qed

text \<open>
  C1. On a failed fetch the program takes a quote from the fallback corpus, appends it
  to the history with a timestamp, makes it the current quote and prints a notice for
  the error type (\<open>handle_error_result\<close>), but it does not write the files, which
  \<open>_display_quote\<close> does on a successful fetch. Evaluated on the sample state after a
  timeout, with 11 the number drawn: the history in memory has the new entry and the
  history file still holds the old history only, whereas displaying a fetched quote
  \<open>B\<close> in the same state rewrites the file.
\<close>

theorem handle_error_skips_save:
  "map_sum id (\<lambda>a. (history (mgr (env a)), current_quote (mgr (env a)), history_file (fs (env a))))
     (handle_error timeout 11 ''2024-05-01T10:00:09'' sample_app)
   = Inr ([sample_entry, \<lparr>quote = ''I feel calm but energized.'', timestamp = ''2024-05-01T10:00:09''\<rparr>],
          ''I feel calm but energized.'', Content [sample_entry])
   \<and> map_sum id (\<lambda>a. (history (mgr (env a)), current_quote (mgr (env a)), history_file (fs (env a))))
     (display_quote ''B'' ''2024-05-01T10:00:09'' sample_app)
   = Inr ([sample_entry, \<lparr>quote = ''B'', timestamp = ''2024-05-01T10:00:09''\<rparr>],
          ''B'', Content [sample_entry, \<lparr>quote = ''B'', timestamp = ''2024-05-01T10:00:09''\<rparr>])"
  by (simp add: handle_error_def display_quote_def random_choice_def FALLBACK_QUOTES_def
        show_loading_def add_to_history_def print_line_def sample_app_def sample_disk_def
        save_data_def save_try_def write_file_def last_50_def Let_def)

section \<open>Favourites\<close>

text \<open>
  C2. When no quote has been displayed yet (\<open>current_quote\<close> is the empty string),
  toggling the favourite changes nothing at all: manager, files, standard output and
  widgets are as before, and the value handed back (\<open>None\<close>) counts as false.
\<close>

theorem app_toggle_favorite_unset:
  assumes "current_quote (mgr (env a)) = ''''"
  shows "\<exists>r. app_toggle_favorite a = Inr (r, a) \<and> \<not> py_truth r"
  using assms by (simp add: app_toggle_favorite_def)

theorem app_toggle_favorite_unset_witness:
  "current_quote (mgr (env sample_app)) = ''''
   \<and> app_toggle_favorite sample_app = Inr (PyNone, sample_app)
   \<and> \<not> py_truth PyNone"
proof -
  have h: "current_quote (mgr (env sample_app)) = ''''"
    by (simp add: sample_app_def)
  from app_toggle_favorite_unset [OF h] h show ?thesis
    by (auto simp: app_toggle_favorite_def)
qed

text \<open>
  C3. For every quote and every duplicate-free list of favourites, toggling the quote
  twice gives back the membership it started with, and the second call returns the
  negation of what the first returned.
\<close>

theorem toggle_favorite_twice:
  assumes "distinct (favorites m)"
  shows "is_favorite q (snd (toggle_favorite q (snd (toggle_favorite q m)))) = is_favorite q m
       \<and> fst (toggle_favorite q (snd (toggle_favorite q m))) = (\<not> fst (toggle_favorite q m))"
  using assms by (simp add: toggle_favorite_def is_favorite_def)

theorem toggle_favorite_twice_witness:
  "distinct (favorites sample_mgr)
   \<and> is_favorite ''B'' sample_mgr
   \<and> \<not> is_favorite ''B'' (snd (toggle_favorite ''B'' sample_mgr))
   \<and> is_favorite ''B'' (snd (toggle_favorite ''B'' (snd (toggle_favorite ''B'' sample_mgr))))
   \<and> fst (toggle_favorite ''B'' sample_mgr) = False
   \<and> fst (toggle_favorite ''B'' (snd (toggle_favorite ''B'' sample_mgr))) = True"
proof -
  have h: "distinct (favorites sample_mgr)"
    by (simp add: sample_mgr_def)
  from toggle_favorite_twice [OF h, of "''B''"] h show ?thesis
    by (simp add: toggle_favorite_def is_favorite_def sample_mgr_def)
qed

section \<open>Persistence\<close>

text \<open>
  C4. Whatever the length of the history in memory, the entries that a save hands to
  the history file are its last 50 (all of them when there are fewer): that list has
  \<open>min 50 n\<close> elements and is the tail of the history, in the same order, the dropped
  entries being the oldest. After the save the history file holds exactly that list,
  or, when a step of the save failed, what it held before or an incomplete text; when
  no step fails it holds exactly that list.
\<close>

theorem save_data_history_window:
  assumes "save_data w = Inr w'"
  shows "length (last_50 (history (mgr w))) = min 50 (length (history (mgr w)))
       \<and> take (length (history (mgr w)) - 50) (history (mgr w)) @ last_50 (history (mgr w))
           = history (mgr w)
       \<and> (history_file (fs w') = Content (last_50 (history (mgr w)))
            \<or> history_file (fs w') = history_file (fs w)
            \<or> history_file (fs w') = Corrupt)
       \<and> (mkdir_ok (fs w) \<and> favorites_wr (fs w) = WriteOk \<and> history_wr (fs w) = WriteOk
            \<longrightarrow> history_file (fs w') = Content (last_50 (history (mgr w))))"
  using assms
  by (auto simp: length_last_50 last_50_suffix save_data_def save_try_def write_file_def Let_def
           split: prod.splits option.splits wr.splits if_splits)

theorem save_data_history_window_witness:
  "save_data (sample_world\<lparr>mgr := sample_mgr\<lparr>history := map numbered [0..<60]\<rparr>\<rparr>)
     = Inr (sample_world\<lparr>mgr := sample_mgr\<lparr>history := map numbered [0..<60]\<rparr>,
                          fs := sample_disk\<lparr>favorites_file := Content [''A'', ''B''],
                                            history_file := Content (map numbered [10..<60])\<rparr>\<rparr>)
   \<and> last_50 (map numbered [0..<60]) = map numbered [10..<60]"
proof -
  let ?w = "sample_world\<lparr>mgr := sample_mgr\<lparr>history := map numbered [0..<60]\<rparr>\<rparr>"
  have l: "last_50 (map numbered [0..<60]) = map numbered [10..<60]"
    by (simp add: last_50_def drop_map)
  have s: "save_data ?w = Inr (?w\<lparr>fs := sample_disk\<lparr>favorites_file := Content [''A'', ''B''],
                                            history_file := Content (map numbered [10..<60])\<rparr>\<rparr>)"
    using save_data_ok [of ?w] l
    by (simp add: sample_world_def sample_disk_def sample_mgr_def)
  from save_data_history_window [OF s] s l show ?thesis
    by (simp add: sample_world_def)
qed

text \<open>
  C5. When a save goes through, a manager built afterwards from the same data directory
  has the favourites that were in memory at the save and the last 50 entries of the
  history, same values in the same order, and these are what the two files hold.
\<close>

theorem save_then_load_roundtrip:
  assumes "mkdir_ok (fs w)" and "favorites_wr (fs w) = WriteOk" and "history_wr (fs w) = WriteOk"
  shows "\<exists>w' m'. save_data w = Inr w' \<and> QuoteManager_init (fs w') = Inr m'
           \<and> favorites_file (fs w') = Content (favorites (mgr w))
           \<and> history_file (fs w') = Content (last_50 (history (mgr w)))
           \<and> favorites m' = favorites (mgr w)
           \<and> history m' = last_50 (history (mgr w))"
  using assms by (simp add: save_data_ok QuoteManager_init_ok)

theorem save_then_load_roundtrip_witness:
  "mkdir_ok (fs sample_world) \<and> favorites_wr (fs sample_world) = WriteOk
   \<and> history_wr (fs sample_world) = WriteOk
   \<and> map_sum id (\<lambda>w. map_sum id (\<lambda>m. (favorites m, history m)) (QuoteManager_init (fs w)))
        (save_data sample_world)
      = Inr (Inr ([''A'', ''B''], [sample_entry]))"
proof -
  have h: "mkdir_ok (fs sample_world)" "favorites_wr (fs sample_world) = WriteOk"
    "history_wr (fs sample_world) = WriteOk"
    by (simp_all add: sample_world_def sample_disk_def)
  from save_then_load_roundtrip [OF h] h show ?thesis
    by (auto simp: sample_world_def sample_mgr_def last_50_def)
qed

text \<open>
  What the constructor tolerates: when the directory can be created and both existence
  tests return, it returns a manager whatever the two files are, with empty favourites
  when the favourites file is missing or unreadable and an empty history when the
  history file is.
\<close>

lemma load_data_files_tolerated:
  assumes "mkdir_ok d" and "favorites_file d \<noteq> NoAccess" and "history_file d \<noteq> NoAccess"
  shows "\<exists>m. QuoteManager_init d = Inr m
          \<and> (favorites_file d = Absent \<or> favorites_file d = Corrupt \<longrightarrow> favorites m = [])
          \<and> (history_file d = Absent \<or> history_file d = Corrupt \<longrightarrow> history m = [])"
  using assms by (auto simp: QuoteManager_init_ok)

text \<open>
  C6. The constructor does not always return when the persisted files are missing. On
  a first start in a directory in which the data directory cannot be created, both
  files are missing and the exception of \<open>mkdir\<close> leaves the constructor. When the data
  directory exists and cannot be searched, the existence test of the favourites file
  raises, and the constructor fails the same way. \<open>save_data\<close>, which creates the
  directory inside its \<open>try\<close>, returns in that first state and prints the error.
\<close>

theorem constructor_raises_without_data_directory:
  "QuoteManager_init
     (sample_disk\<lparr>mkdir_ok := False, favorites_file := Absent, history_file := Absent\<rparr>)
   = Inl (OSError Mkdir)
   \<and> QuoteManager_init (sample_disk\<lparr>favorites_file := NoAccess, history_file := NoAccess\<rparr>)
   = Inl (OSError ExistsFavorites)
   \<and> QuoteManager_init (sample_disk\<lparr>favorites_file := Absent, history_file := NoAccess\<rparr>)
   = Inl (OSError ExistsHistory)
   \<and> map_sum id stdout
       (save_data (sample_world\<lparr>fs := sample_disk\<lparr>mkdir_ok := False, favorites_file := Absent,
                                                  history_file := Absent\<rparr>\<rparr>))
   = Inr [ErrorSavingData (OSError Mkdir)]"
  by (simp add: QuoteManager_init_def load_data_def sample_disk_def sample_world_def
        save_data_def save_try_def)

text \<open>
  C7. \<open>save_data\<close> returns normally in every state, whichever step of the save fails
  (creating the directory, opening either file, writing either file). The manager in
  memory is the same afterwards, and a failure shows as one more line on the standard
  output, which a save without failure leaves as it was.
\<close>

theorem save_data_never_raises:
  "\<exists>w'. save_data w = Inr w' \<and> mgr w' = mgr w
      \<and> (if mkdir_ok (fs w) \<and> favorites_wr (fs w) = WriteOk \<and> history_wr (fs w) = WriteOk
         then stdout w' = stdout w
         else \<exists>s. stdout w' = stdout w @ [ErrorSavingData (OSError s)])"
proof -
  obtain w' where w': "save_data w = Inr w'"
    using save_data_total by blast
  show ?thesis
    using w' save_data_mgr [OF w'] save_data_stdout [OF w'] by simp
qed

theorem save_data_never_raises_witness:
  "save_data (sample_world\<lparr>fs := sample_disk\<lparr>history_wr := DumpFails\<rparr>\<rparr>)
     = Inr \<lparr>mgr = sample_mgr,
            fs = sample_disk\<lparr>favorites_file := Content [''A'', ''B''], history_file := Corrupt,
                             history_wr := DumpFails\<rparr>,
            stdout = [ErrorSavingData (OSError DumpHistory)]\<rparr>"
  using save_data_never_raises [of "sample_world\<lparr>fs := sample_disk\<lparr>history_wr := DumpFails\<rparr>\<rparr>"]
  by (simp add: sample_world_def sample_disk_def sample_mgr_def save_data_def save_try_def
        write_file_def Let_def)

section \<open>The favourites stay free of duplicates\<close>

text \<open>
  C8. Every operation keeps the favourites free of duplicates. A constructor run on a
  favourites file without duplicates gives favourites without duplicates; from
  favourites without duplicates, \<open>toggle_favorite\<close> (of the manager and of the
  application), recording a quote and removing the selected favourite give favourites
  without duplicates; and a save then leaves a favourites file without duplicates, for
  the next constructor. Membership is equality with an element of the list, and
  toggling a favourite removes that string and no other.
\<close>

theorem favorites_no_duplicates:
  "((\<forall>xs. favorites_file d = Content xs \<longrightarrow> distinct xs) \<longrightarrow>
      (\<forall>m0. QuoteManager_init d = Inr m0 \<longrightarrow> distinct (favorites m0)))
   \<and> (distinct (favorites m) \<longrightarrow>
         distinct (favorites (snd (toggle_favorite q m)))
       \<and> distinct (favorites (add_to_history q now m)))
   \<and> (distinct (favorites (mgr (env a))) \<longrightarrow>
         (\<forall>a'. remove_selected sel a = Inr a' \<longrightarrow> distinct (favorites (mgr (env a'))))
       \<and> (\<forall>r a'. app_toggle_favorite a = Inr (r, a') \<longrightarrow> distinct (favorites (mgr (env a')))))
   \<and> (distinct (favorites (mgr w)) \<longrightarrow>
         (\<forall>xs. favorites_file (fs w) = Content xs \<longrightarrow> distinct xs) \<longrightarrow>
         (\<forall>w' xs. save_data w = Inr w' \<longrightarrow> favorites_file (fs w') = Content xs \<longrightarrow> distinct xs))
   \<and> is_favorite q m = (q \<in> set (favorites m))
   \<and> (distinct (favorites m) \<longrightarrow> q \<in> set (favorites m) \<longrightarrow>
         set (favorites (snd (toggle_favorite q m))) = set (favorites m) - {q})"
proof (intro conjI impI allI)
  fix m0
  assume "\<forall>xs. favorites_file d = Content xs \<longrightarrow> distinct xs" "QuoteManager_init d = Inr m0"
  then show "distinct (favorites m0)" by (rule QuoteManager_init_distinct)
next
  assume "distinct (favorites m)"
  then show "distinct (favorites (snd (toggle_favorite q m)))" by (rule toggle_favorite_distinct)
next
  assume "distinct (favorites m)"
  then show "distinct (favorites (add_to_history q now m))" by (simp add: add_to_history_def)
next
  fix a'
  assume "distinct (favorites (mgr (env a)))" "remove_selected sel a = Inr a'"
  then show "distinct (favorites (mgr (env a')))"
    by (auto dest!: remove_selected_mgr split: option.splits)
next
  fix r a'
  assume "distinct (favorites (mgr (env a)))" "app_toggle_favorite a = Inr (r, a')"
  then show "distinct (favorites (mgr (env a')))"
    by (auto dest!: app_toggle_favorite_mgr simp: toggle_favorite_distinct split: if_splits)
next
  fix w' xs
  assume "distinct (favorites (mgr w))"
    "\<forall>xs. favorites_file (fs w) = Content xs \<longrightarrow> distinct xs"
    "save_data w = Inr w'" "favorites_file (fs w') = Content xs"
  then show "distinct xs" by (rule save_data_favorites_distinct)
next
  show "is_favorite q m = (q \<in> set (favorites m))" by (simp add: is_favorite_def)
next
  assume "distinct (favorites m)" "q \<in> set (favorites m)"
  then show "set (favorites (snd (toggle_favorite q m))) = set (favorites m) - {q}"
    by (simp add: toggle_favorite_def)
qed

theorem favorites_no_duplicates_witness:
  "favorites_file sample_disk = Content [''A'']
   \<and> map_sum id favorites (QuoteManager_init sample_disk) = Inr [''A'']
   \<and> distinct (favorites sample_mgr)
   \<and> favorites (snd (toggle_favorite ''A'' sample_mgr)) = [''B'']
   \<and> favorites (snd (toggle_favorite ''C'' sample_mgr)) = [''A'', ''B'', ''C'']
   \<and> distinct (favorites (mgr (env (sample_app\<lparr>env := sample_world\<rparr>))))
   \<and> map_sum id (\<lambda>a. favorites (mgr (env a)))
        (remove_selected (Some 0) (sample_app\<lparr>env := sample_world\<rparr>)) = Inr [''B'']
   \<and> map_sum id (\<lambda>w. favorites_file (fs w)) (save_data sample_world) = Inr (Content [''A'', ''B''])
   \<and> is_favorite ''A'' sample_mgr"
  using favorites_no_duplicates [of sample_disk sample_mgr "''A''" "''t''"
          "sample_app\<lparr>env := sample_world\<rparr>" "Some 0" sample_world]
  by (simp add: QuoteManager_init_ok sample_disk_def sample_mgr_def sample_world_def
        toggle_favorite_def remove_selected_def is_favorite_def
        save_data_def save_try_def write_file_def Let_def)

section \<open>One fetch at a time\<close>

text \<open>
  Once \<open>is_loading\<close> is set, \<open>get_quote\<close> does nothing. The flag is set by
  \<open>_show_loading(True)\<close>, which the thread registers with the main loop, not by
  \<open>get_quote\<close> itself.
\<close>

lemma get_quote_while_loading: "is_loading a \<Longrightarrow> get_quote a = a"
  by (simp add: get_quote_def)

lemma get_quote_before_loading:
  "\<not> is_loading a \<Longrightarrow> get_quote (get_quote a) = a\<lparr>started := started a + 2\<rparr>"
  by (simp add: get_quote_def)

text \<open>
  C9. A call of \<open>get_quote\<close> that the main loop runs before the callback
  \<open>_show_loading(True)\<close> of the fetch in progress starts a second thread. On the sample
  state, the thread started by \<open>__init__\<close> begins: it registers its callback and its
  request is sent. A call of \<open>get_quote\<close> that comes before the main loop has run that
  callback finds the flag unset and starts a second thread, so that two requests are
  sent and two threads wait. When both responses have come and the main loop has run
  the four callbacks, the history has one new entry for each of the two fetches.
\<close>

theorem get_quote_twice_two_fetches:
  "map_sum id (\<lambda>a. (is_loading a, started a, requests_sent a, in_flight a))
     (run [ThreadBegins, CallGetQuote, ThreadBegins] sample_app)
   = Inr (False, 0, 2, 2)
   \<and> map_sum id (\<lambda>a. (requests_sent a, map quote (history (mgr (env a)))))
     (run [ThreadBegins, CallGetQuote, ThreadBegins,
           ThreadEnds (GotQuote ''B''), ThreadEnds (GotQuote ''C''),
           MainLoop 0 ''t'', MainLoop 0 ''t'', MainLoop 0 ''t1'', MainLoop 0 ''t2''] sample_app)
   = Inr (2, [''A'', ''B'', ''C''])"
  by (simp add: step_def get_quote_def fetch_quote_begin_def fetch_quote_end_def after_0_def
        run_callback_def show_loading_def display_quote_def add_to_history_def
        sample_app_def sample_disk_def sample_entry_def
        save_data_def save_try_def write_file_def last_50_def Let_def)

section \<open>The current quote of a new manager\<close>

text \<open>
  C10. A manager that the constructor returns has the empty string as current quote,
  whatever the files hold, also with a history loaded from the history file. Of the
  manager's operations only \<open>add_to_history\<close> assigns the current quote, to the quote it
  records; toggling a favourite and saving leave it as it is.
\<close>

theorem fresh_manager_current_quote_empty:
  "(\<forall>m. QuoteManager_init d = Inr m \<longrightarrow> current_quote m = '''')
   \<and> current_quote (snd (toggle_favorite q m)) = current_quote m
   \<and> (\<forall>w'. save_data w = Inr w' \<longrightarrow> current_quote (mgr w') = current_quote (mgr w))
   \<and> current_quote (add_to_history q now m) = q"
proof -
  have "\<forall>m. QuoteManager_init d = Inr m \<longrightarrow> current_quote m = ''''"
    by (auto dest: QuoteManager_init_result)
  moreover have "current_quote (snd (toggle_favorite q m)) = current_quote m"
    by (simp add: toggle_favorite_def)
  moreover have "\<forall>w'. save_data w = Inr w' \<longrightarrow> current_quote (mgr w') = current_quote (mgr w)"
    by (simp add: save_data_mgr)
  moreover have "current_quote (add_to_history q now m) = q"
    by (simp add: add_to_history_def)
  ultimately show ?thesis by blast
qed

theorem fresh_manager_current_quote_empty_witness:
  "map_sum id (\<lambda>m. (history m, current_quote m)) (QuoteManager_init sample_disk)
     = Inr ([sample_entry], '''')
   \<and> current_quote (add_to_history ''B'' ''2024-05-01T10:00:09''
        \<lparr>history = [sample_entry], favorites = [''A''], current_quote = ''''\<rparr>) = ''B''"
  using fresh_manager_current_quote_empty [of sample_disk "''B''"
          "\<lparr>history = [sample_entry], favorites = [''A''], current_quote = ''''\<rparr>"
          sample_world "''2024-05-01T10:00:09''"]
  by (simp add: QuoteManager_init_ok sample_disk_def)

end
